theory Spec2Isabelle
  imports Main "HOL-Library.Word"
begin

unbundle bit_operations_syntax

section \<open>Data model\<close>

text \<open>
  A shallow embedding of \<^verbatim>\<open>pycoin/tx/script/checksigops.py\<close>: the signature checks behind
  CHECKSIG and CHECKMULTISIG. Python byte strings are lists of 8-bit words, Python integers
  are \<open>int\<close>, and every \<^verbatim>\<open>raise\<close> is a value \<open>Inl e\<close> of a sum type.
\<close>

type_synonym byte = "8 word"
type_synonym bytes = "byte list"

text \<open>The error codes of the module \<^verbatim>\<open>errno\<close> that this file passes to \<^verbatim>\<open>ScriptError\<close>.\<close>

datatype errno =
    SIG_DER | SIG_HIGH_S | SIG_HASHTYPE | PUBKEYTYPE | WITNESS_PUBKEYTYPE
  | NULLFAIL | SIG_NULLDUMMY | PUBKEY_COUNT | SIG_COUNT | VERIFY

text \<open>
  The exceptions that occur. \<open>ScriptError msg code\<close> carries the arguments the source passes:
  the message and, where the source gives one, the error code. \<open>IndexError\<close> stands for an
  out-of-range read of a sequence or a pop from an empty stack.
\<close>

datatype exn =
    ScriptError string "errno option"
  | ValueError string
  | UnexpectedDER
  | EncodingError
  | NoSuchPointError
  | IndexError

text \<open>
  The virtual machine as far as this file uses it: the operand stack (its head is the top),
  the verification flags and the operation counter.
\<close>

record vm =
  stack :: "bytes list"
  vm_flags :: int
  op_count :: int

text \<open>
  The collaborators this file imports and does not define (the packages \<^verbatim>\<open>ecdsa\<close>,
  \<^verbatim>\<open>encoding\<close>, \<^verbatim>\<open>der\<close> and the virtual machine's methods) are parameters:
  \<^item> \<open>curve_p\<close>: the value of \<^verbatim>\<open>ecdsa.generator_secp256k1.curve().p()\<close>;
  \<^item> \<open>sigdecode_der\<close>: \<^verbatim>\<open>der.sigdecode_der(_, use_broken_open_ssl_mechanism=True)\<close>;
  \<^item> \<open>sec_to_public_pair blob strict\<close>: \<^verbatim>\<open>sec_to_public_pair(blob, strict=strict)\<close>;
  \<^item> \<open>possible_public_pairs_for_signature h sig_pair\<close> and \<open>ecdsa_verify pair h sig_pair\<close>:
    the functions of \<^verbatim>\<open>ecdsa\<close>, at the generator \<^verbatim>\<open>generator_secp256k1\<close>;
  \<^item> \<open>signature_for_hash_type_f\<close>: the virtual machine's digest function;
  \<^item> \<open>int_from_script_bytes\<close>: how \<^verbatim>\<open>vm.pop_int()\<close> reads the popped item as an integer.
  A public pair is a pair of integers and a digest is an integer.
\<close>

record ext =
  curve_p :: int
  sigdecode_der :: "bytes \<Rightarrow> exn + (int \<times> int)"
  sec_to_public_pair :: "bytes \<Rightarrow> bool \<Rightarrow> exn + (int \<times> int)"
  possible_public_pairs_for_signature :: "int \<Rightarrow> int \<times> int \<Rightarrow> exn + (int \<times> int) set"
  ecdsa_verify :: "int \<times> int \<Rightarrow> int \<Rightarrow> int \<times> int \<Rightarrow> bool"
  signature_for_hash_type_f :: "int \<Rightarrow> bytes list \<Rightarrow> vm \<Rightarrow> int"
  int_from_script_bytes :: "bytes \<Rightarrow> exn + int"

subsection \<open>Constants of \<^verbatim>\<open>flags.py\<close> and of the virtual machine\<close>

text \<open>
  Modelled from the spec: \<^verbatim>\<open>flags.py\<close> is not among the sources. The spec makes each
  verification flag an independently settable bit of the flag set, ANYONECANPAY the high bit
  of the hash-type byte and ALL, NONE, SINGLE the three values of the interval from ALL to
  SINGLE. The numbers are those of the Bitcoin protocol.
\<close>

definition SIGHASH_ALL :: int where "SIGHASH_ALL = 1"
definition SIGHASH_NONE :: int where "SIGHASH_NONE = 2"
definition SIGHASH_SINGLE :: int where "SIGHASH_SINGLE = 3"
definition SIGHASH_ANYONECANPAY :: int where "SIGHASH_ANYONECANPAY = 0x80"

definition VERIFY_STRICTENC :: int where "VERIFY_STRICTENC = push_bit 1 1"
definition VERIFY_DERSIG :: int where "VERIFY_DERSIG = push_bit 2 1"
definition VERIFY_LOW_S :: int where "VERIFY_LOW_S = push_bit 3 1"
definition VERIFY_NULLDUMMY :: int where "VERIFY_NULLDUMMY = push_bit 4 1"
definition VERIFY_NULLFAIL :: int where "VERIFY_NULLFAIL = push_bit 14 1"
definition VERIFY_WITNESS_PUBKEYTYPE :: int where "VERIFY_WITNESS_PUBKEYTYPE = push_bit 15 1"

text \<open>
  Modelled from the spec: the virtual machine's class is not among the sources. Its two
  boolean results \<^verbatim>\<open>vm.VM_TRUE\<close> and \<^verbatim>\<open>vm.VM_FALSE\<close> are script byte strings; false is the
  empty string (Python's \<^verbatim>\<open>not sig_ok\<close> holds of it), true the single byte 1.
\<close>

definition VM_TRUE :: bytes where "VM_TRUE = [1]"
definition VM_FALSE :: bytes where "VM_FALSE = []"

section \<open>Helpers of Python and of \<^verbatim>\<open>intbytes\<close>\<close>

definition bindE :: "exn + 'a \<Rightarrow> ('a \<Rightarrow> exn + 'b) \<Rightarrow> exn + 'b" where
  "bindE m f = (case m of Inl e \<Rightarrow> Inl e | Inr v \<Rightarrow> f v)"

text \<open>\<^verbatim>\<open>xs[i]\<close> on a list: a negative index counts from the end, out of range raises.\<close>

definition getitem :: "int list \<Rightarrow> int \<Rightarrow> exn + int" where
  "getitem xs i =
     (if 0 \<le> i \<and> i < int (length xs) then Inr (xs ! nat i)
      else if - int (length xs) \<le> i \<and> i < 0 then Inr (xs ! nat (int (length xs) + i))
      else Inl IndexError)"

definition iterbytes :: "bytes \<Rightarrow> int list" where
  "iterbytes b = map uint b"

definition byte2int :: "bytes \<Rightarrow> exn + int" where
  "byte2int b = (case b of [] \<Rightarrow> Inl IndexError | c # _ \<Rightarrow> Inr (uint c))"

text \<open>\<^verbatim>\<open>"%d" % n\<close>, for the one formatted message.\<close>

fun str_nat :: "nat \<Rightarrow> string" where
  "str_nat n =
     (if n < 10 then [char_of (48 + n)] else str_nat (n div 10) @ [char_of (48 + n mod 10)])"

definition str_int :: "int \<Rightarrow> string" where
  "str_int i = (if i < 0 then CHR ''-'' # str_nat (nat (- i)) else str_nat (nat i))"

section \<open>Signature encoding checks\<close>

definition check_valid_signature_1 :: "int list \<Rightarrow> exn + unit" where
  "check_valid_signature_1 sig =
     (let ls = int (length sig) in
      if ls < 9 \<or> ls > 73 then Inl (ScriptError ''bad signature size'' (Some SIG_DER))
      else bindE (getitem sig 0) (\<lambda>b0.
        if b0 \<noteq> 0x30 then Inl (ScriptError ''bad signature byte 0'' (Some SIG_DER))
        else bindE (getitem sig 1) (\<lambda>b1.
          if b1 \<noteq> ls - 3 then Inl (ScriptError ''signature size wrong'' (Some SIG_DER))
          else bindE (getitem sig 3) (\<lambda>r_len.
            if 5 + r_len \<ge> ls
            then Inl (ScriptError ''r length exceed signature size'' (Some SIG_DER))
            else Inr ()))))"

definition check_valid_signature_2 :: "int list \<Rightarrow> exn + unit" where
  "check_valid_signature_2 sig =
     (let ls = int (length sig) in
      bindE (getitem sig 3) (\<lambda>r_len.
      bindE (getitem sig (5 + r_len)) (\<lambda>s_len.
      if r_len + s_len + 7 \<noteq> ls
      then Inl (ScriptError ''r and s size exceed signature size'' (Some SIG_DER))
      else bindE (getitem sig 2) (\<lambda>b2.
      if b2 \<noteq> 2
      then Inl (ScriptError ''R value region does not start with 0x02'' (Some SIG_DER))
      else if r_len = 0 then Inl (ScriptError ''zero-length R value'' (Some SIG_DER))
      else bindE (getitem sig 4) (\<lambda>b4.
      if b4 AND 0x80 \<noteq> 0
      then Inl (ScriptError ''sig R value not allowed to be negative'' (Some SIG_DER))
      else bindE (if r_len > 1 \<and> b4 = 0
                  then bindE (getitem sig 5) (\<lambda>b5. Inr (b5 AND 0x80 = 0))
                  else Inr False) (\<lambda>r_padded.
      if r_padded
      then Inl (ScriptError
        ''R value can't have leading 0 byte unless doing so would make it negative''
        (Some SIG_DER))
      else bindE (getitem sig (r_len + 4)) (\<lambda>bs.
      if bs \<noteq> 2
      then Inl (ScriptError ''S value region does not start with 0x02'' (Some SIG_DER))
      else if s_len = 0 then Inl (ScriptError ''zero-length S value'' (Some SIG_DER))
      else bindE (getitem sig (r_len + 6)) (\<lambda>b6.
      if b6 AND 0x80 \<noteq> 0
      then Inl (ScriptError ''negative S values not allowed'' (Some SIG_DER))
      else bindE (if s_len > 1 \<and> b6 = 0
                  then bindE (getitem sig (r_len + 7)) (\<lambda>b7. Inr (b7 AND 0x80 = 0))
                  else Inr False) (\<lambda>s_padded.
      if s_padded
      then Inl (ScriptError
        ''S value can't have leading 0 byte unless doing so would make it negative''
        (Some SIG_DER))
      else Inr ())))))))))"

definition check_valid_signature :: "bytes \<Rightarrow> exn + unit" where
  "check_valid_signature sig =
     (let sig' = iterbytes sig in
      bindE (check_valid_signature_1 sig') (\<lambda>_. check_valid_signature_2 sig'))"

definition check_low_der_signature :: "ext \<Rightarrow> int \<times> int \<Rightarrow> exn + unit" where
  "check_low_der_signature x sig_pair =
     (case sig_pair of (r, s) \<Rightarrow>
        let hi_s = curve_p x - s in
        if hi_s < s then Inl (ScriptError ''signature has high S value'' (Some SIG_HIGH_S))
        else Inr ())"

definition check_defined_hashtype_signature :: "bytes \<Rightarrow> exn + unit" where
  "check_defined_hashtype_signature sig =
     (if length sig = 0 then Inl (ScriptError ''signature is length 0'' None)
      else
        let hash_type = uint (last sig) AND NOT SIGHASH_ANYONECANPAY in
        if hash_type < SIGHASH_ALL \<or> hash_type > SIGHASH_SINGLE
        then Inl (ScriptError ''bad hash type after signature'' (Some SIG_HASHTYPE))
        else Inr ())"

definition parse_signature_blob :: "ext \<Rightarrow> bytes \<Rightarrow> int \<Rightarrow> exn + ((int \<times> int) \<times> int)" where
  "parse_signature_blob x sig_blob flags =
     (if length sig_blob = 0 then Inl (ValueError ''empty sig_blob'')
      else
        bindE (if flags AND (VERIFY_DERSIG OR VERIFY_LOW_S OR VERIFY_STRICTENC) \<noteq> 0
               then check_valid_signature sig_blob else Inr ()) (\<lambda>_.
        bindE (if flags AND VERIFY_STRICTENC \<noteq> 0
               then check_defined_hashtype_signature sig_blob else Inr ()) (\<lambda>_.
        bindE (sigdecode_der x (butlast sig_blob)) (\<lambda>sig_pair.
        let signature_type = uint (last sig_blob) in
        bindE (if flags AND VERIFY_LOW_S \<noteq> 0
               then check_low_der_signature x sig_pair else Inr ()) (\<lambda>_.
        Inr (sig_pair, signature_type))))))"

section \<open>Public key encoding checks\<close>

definition invalid_public_key_blob :: exn where
  "invalid_public_key_blob = ScriptError ''invalid public key blob'' (Some PUBKEYTYPE)"

definition check_public_key_encoding :: "bytes \<Rightarrow> exn + unit" where
  "check_public_key_encoding blob =
     (let lb = length blob in
      if lb \<ge> 33 then
        bindE (byte2int blob) (\<lambda>fb.
          if fb = 4 then (if lb = 65 then Inr () else Inl invalid_public_key_blob)
          else if fb = 2 \<or> fb = 3 then (if lb = 33 then Inr () else Inl invalid_public_key_blob)
          else Inl invalid_public_key_blob)
      else Inl invalid_public_key_blob)"

text \<open>
  The test that \<^verbatim>\<open>do_OP_CHECKSIG\<close> (lines 144-145) and \<^verbatim>\<open>find_public_pair\<close> (lines 214-215)
  both write inline under \<^verbatim>\<open>VERIFY_WITNESS_PUBKEYTYPE\<close>.
\<close>

definition check_witness_pubkeytype :: "bytes \<Rightarrow> exn + unit" where
  "check_witness_pubkeytype blob =
     bindE (byte2int blob) (\<lambda>fb.
       if (fb \<noteq> 2 \<and> fb \<noteq> 3) \<or> length blob \<noteq> 33
       then Inl (ScriptError ''uncompressed key in witness'' (Some WITNESS_PUBKEYTYPE))
       else Inr ())"

section \<open>Stack operations\<close>

definition pop :: "vm \<Rightarrow> (exn + bytes) \<times> vm" where
  "pop v = (case stack v of [] \<Rightarrow> (Inl IndexError, v) | b # s \<Rightarrow> (Inr b, v\<lparr>stack := s\<rparr>))"

definition pop_int :: "ext \<Rightarrow> vm \<Rightarrow> (exn + int) \<times> vm" where
  "pop_int x v =
     (case pop v of
        (Inl e, v') \<Rightarrow> (Inl e, v')
      | (Inr b, v') \<Rightarrow> (int_from_script_bytes x b, v'))"

definition vm_append :: "vm \<Rightarrow> bytes \<Rightarrow> vm" where
  "vm_append v b = v\<lparr>stack := b # stack v\<rparr>"

text \<open>\<^verbatim>\<open>[vm.pop() for _ in range(n)]\<close>: the first item popped is the first of the list.\<close>

fun pop_n :: "nat \<Rightarrow> vm \<Rightarrow> (exn + bytes list) \<times> vm" where
  "pop_n 0 v = (Inr [], v)"
| "pop_n (Suc n) v =
     (case pop v of
        (Inl e, v') \<Rightarrow> (Inl e, v')
      | (Inr b, v') \<Rightarrow>
          (case pop_n n v' of
             (Inl e, v'') \<Rightarrow> (Inl e, v'')
           | (Inr bs, v'') \<Rightarrow> (Inr (b # bs), v'')))"

section \<open>CHECKSIG\<close>

text \<open>
  The handler \<^verbatim>\<open>except (der.UnexpectedDER, ValueError, EncodingError)\<close> of
  \<^verbatim>\<open>do_OP_CHECKSIG\<close>: \<open>caught\<close> is the tuple of exception classes it names. These three
  push false and return; any other exception, a \<^verbatim>\<open>ScriptError\<close> among them, propagates
  (as the comment of line 140 expects of the key check, which stands inside the same
  \<^verbatim>\<open>try\<close>).
\<close>

definition caught :: "exn \<Rightarrow> bool" where
  "caught e =
     (case e of UnexpectedDER \<Rightarrow> True | ValueError _ \<Rightarrow> True | EncodingError \<Rightarrow> True
      | _ \<Rightarrow> False)"

definition checksig_except :: "vm \<Rightarrow> exn \<Rightarrow> (exn + unit) \<times> vm" where
  "checksig_except v e = (if caught e then (Inr (), vm_append v VM_FALSE) else (Inl e, v))"

definition do_OP_CHECKSIG :: "ext \<Rightarrow> vm \<Rightarrow> (exn + unit) \<times> vm" where
  "do_OP_CHECKSIG x v =
     (let flags = vm_flags v in
      case pop v of
        (Inl e, v1) \<Rightarrow> checksig_except v1 e
      | (Inr pair_blob, v1) \<Rightarrow>
      (case pop v1 of
        (Inl e, v2) \<Rightarrow> checksig_except v2 e
      | (Inr sig_blob, v2) \<Rightarrow>
      (let verify_strict = (flags AND VERIFY_STRICTENC \<noteq> 0) in
       case
         bindE (if verify_strict then check_public_key_encoding pair_blob else Inr ()) (\<lambda>_.
         bindE (if flags AND VERIFY_WITNESS_PUBKEYTYPE \<noteq> 0
                then check_witness_pubkeytype pair_blob else Inr ()) (\<lambda>_.
         bindE (parse_signature_blob x sig_blob flags) (\<lambda>(sig_pair, signature_type).
         bindE (sec_to_public_pair x pair_blob verify_strict) (\<lambda>public_pair.
         Inr (sig_pair, signature_type, public_pair)))))
       of
         Inl e \<Rightarrow> checksig_except v2 e
       | Inr (sig_pair, signature_type, public_pair) \<Rightarrow>
           let signature_hash = signature_for_hash_type_f x signature_type [sig_blob] v2 in
           if ecdsa_verify x public_pair signature_hash sig_pair
           then (Inr (), vm_append v2 VM_TRUE)
           else if flags AND VERIFY_NULLFAIL \<noteq> 0 \<and> length sig_blob > 0
           then (Inl (ScriptError ''bad signature not NULL'' (Some NULLFAIL)), v2)
           else (Inr (), vm_append v2 VM_FALSE))))"

section \<open>CHECKMULTISIG\<close>

text \<open>
  \<^verbatim>\<open>find_public_pair\<close>: the loop over \<^verbatim>\<open>public_pair_blobs\<close> is a recursion on the list. The
  parameter \<open>verify_witness_pubkeytype\<close> is the integer \<^verbatim>\<open>flags & VERIFY_WITNESS_PUBKEYTYPE\<close>.
  \<^verbatim>\<open>public_pair\<close> is \<^verbatim>\<open>None\<close> after an \<^verbatim>\<open>EncodingError\<close>, and \<^verbatim>\<open>None\<close> is in no set of pairs.
\<close>

fun find_public_pair ::
  "ext \<Rightarrow> bytes list \<Rightarrow> (int \<times> int) set \<Rightarrow> int \<Rightarrow> bool \<Rightarrow> int \<Rightarrow> int \<Rightarrow> exn + int" where
  "find_public_pair x public_pair_blobs ppp signature_count strict_encoding
       verify_witness_pubkeytype ppb_idx =
     (if int (length public_pair_blobs) > signature_count then
        (case public_pair_blobs of
           [] \<Rightarrow> Inl IndexError
         | public_pair_blob # rest \<Rightarrow>
             (case
                bindE (if strict_encoding then check_public_key_encoding public_pair_blob
                       else Inr ()) (\<lambda>_.
                bindE (if verify_witness_pubkeytype \<noteq> 0
                       then check_witness_pubkeytype public_pair_blob else Inr ()) (\<lambda>_.
                (case sec_to_public_pair x public_pair_blob strict_encoding of
                   Inl EncodingError \<Rightarrow> Inr None
                 | Inl e \<Rightarrow> Inl e
                 | Inr p \<Rightarrow> Inr (Some p))))
              of
                Inl e \<Rightarrow> Inl e
              | Inr public_pair \<Rightarrow>
                  if (case public_pair of None \<Rightarrow> False | Some p \<Rightarrow> p \<in> ppp)
                  then Inr (ppb_idx + 1)
                  else find_public_pair x rest ppp signature_count strict_encoding
                         verify_witness_pubkeytype (ppb_idx + 1)))
      else Inr (- 1))"

text \<open>
  The loop of \<^verbatim>\<open>sig_blob_matches\<close>, a recursion on the remaining \<^verbatim>\<open>sig_blobs\<close>. Its state is
  \<^verbatim>\<open>sig_cache\<close> (a map from hash type to digest), \<^verbatim>\<open>sig_blob_indices\<close> and \<^verbatim>\<open>ppb_idx\<close>.
  \<^verbatim>\<open>public_pair_blobs\<close> is the same list in every iteration: \<^verbatim>\<open>find_public_pair\<close> shortens
  only its own local variable.
\<close>

fun sig_blob_matches_loop ::
  "ext \<Rightarrow> vm \<Rightarrow> bytes list \<Rightarrow> bytes list \<Rightarrow> int \<Rightarrow>
   (int \<Rightarrow> int option) \<Rightarrow> int list \<Rightarrow> int \<Rightarrow> bytes list \<Rightarrow> exn + int list" where
  "sig_blob_matches_loop x v blobs_to_remove public_pair_blobs flags
       sig_cache sig_blob_indices ppb_idx [] = Inr sig_blob_indices"
| "sig_blob_matches_loop x v blobs_to_remove public_pair_blobs flags
       sig_cache sig_blob_indices ppb_idx (sig_blob # sig_blobs) =
     (if length (sig_blob # sig_blobs) \<le> length public_pair_blobs then
        if - 1 \<in> set sig_blob_indices then Inr sig_blob_indices
        else
          (case parse_signature_blob x sig_blob flags of
             Inl UnexpectedDER \<Rightarrow>
               sig_blob_matches_loop x v blobs_to_remove public_pair_blobs flags
                 sig_cache (sig_blob_indices @ [- 1]) ppb_idx sig_blobs
           | Inl (ValueError _) \<Rightarrow>
               sig_blob_matches_loop x v blobs_to_remove public_pair_blobs flags
                 sig_cache (sig_blob_indices @ [- 1]) ppb_idx sig_blobs
           | Inl e \<Rightarrow> Inl e
           | Inr (sig_pair, signature_type) \<Rightarrow>
               (let (h, sig_cache') =
                      (case sig_cache signature_type of
                         None \<Rightarrow>
                           (let h = signature_for_hash_type_f x signature_type blobs_to_remove v
                            in (h, sig_cache(signature_type \<mapsto> h)))
                       | Some h \<Rightarrow> (h, sig_cache))
                in
                case
                  (case possible_public_pairs_for_signature x h sig_pair of
                     Inl NoSuchPointError \<Rightarrow> Inr {}
                   | Inl e \<Rightarrow> Inl e
                   | Inr ps \<Rightarrow> Inr ps)
                of
                  Inl e \<Rightarrow> Inl e
                | Inr ppp \<Rightarrow>
                    (case find_public_pair x public_pair_blobs ppp (int (length sig_blobs))
                            (flags AND VERIFY_STRICTENC \<noteq> 0)
                            (flags AND VERIFY_WITNESS_PUBKEYTYPE) ppb_idx of
                       Inl e \<Rightarrow> Inl e
                     | Inr ppb_idx' \<Rightarrow>
                         sig_blob_matches_loop x v blobs_to_remove public_pair_blobs flags
                           sig_cache' (sig_blob_indices @ [ppb_idx']) ppb_idx' sig_blobs)))
      else Inr sig_blob_indices)"

definition sig_blob_matches ::
  "ext \<Rightarrow> vm \<Rightarrow> bytes list \<Rightarrow> bytes list \<Rightarrow> int \<Rightarrow> exn + int list" where
  "sig_blob_matches x v sig_blobs public_pair_blobs flags =
     sig_blob_matches_loop x v sig_blobs public_pair_blobs flags Map.empty [] (- 1) sig_blobs"

text \<open>
  The \<^verbatim>\<open>for ... else\<close> of \<^verbatim>\<open>do_OP_CHECKMULTISIG\<close> (lines 255-259): it breaks at the first
  neighbours with \<^verbatim>\<open>sig_blob_indices[i] >= sig_blob_indices[i+1]\<close>, and the \<^verbatim>\<open>else\<close> branch
  runs when it did not break.
\<close>

fun indices_increasing :: "int list \<Rightarrow> bool" where
  "indices_increasing (a # b # rest) = (if a \<ge> b then False else indices_increasing (b # rest))"
| "indices_increasing _ = True"

text \<open>
  Lines 251-265 of \<^verbatim>\<open>do_OP_CHECKMULTISIG\<close>, the part after the call of the matcher, as a
  function of the index list \<^verbatim>\<open>sig_blob_indices\<close>: the three tests that set \<^verbatim>\<open>sig_ok\<close>, the
  NULLFAIL test and the push.
\<close>

definition checkmultisig_accept ::
  "int \<Rightarrow> bytes list \<Rightarrow> vm \<Rightarrow> int list \<Rightarrow> (exn + unit) \<times> vm" where
  "checkmultisig_accept flags sig_blobs v sig_blob_indices =
     (let sig_ok =
        (if - 1 \<notin> set sig_blob_indices \<and> length sig_blob_indices = length sig_blobs
         then (if indices_increasing sig_blob_indices then VM_TRUE else VM_FALSE)
         else VM_FALSE)
      in
      if sig_ok = [] \<and> flags AND VERIFY_NULLFAIL \<noteq> 0
         \<and> list_ex (\<lambda>sig_blob. length sig_blob > 0) sig_blobs
      then (Inl (ScriptError ''bad signature not NULL'' (Some NULLFAIL)), v)
      else (Inr (), vm_append v sig_ok))"

definition do_OP_CHECKMULTISIG :: "ext \<Rightarrow> vm \<Rightarrow> (exn + unit) \<times> vm" where
  "do_OP_CHECKMULTISIG x v =
     (let flags = vm_flags v in
      case pop_int x v of
        (Inl e, v1) \<Rightarrow> (Inl e, v1)
      | (Inr key_count, v1) \<Rightarrow>
      (let v2 = v1\<lparr>op_count := op_count v1 + key_count\<rparr> in
       if key_count < 0 \<or> key_count > 20
       then (Inl (ScriptError ''key_count not in range 0 to 20'' (Some PUBKEY_COUNT)), v2)
       else
       (case pop_n (nat key_count) v2 of
         (Inl e, v3) \<Rightarrow> (Inl e, v3)
       | (Inr public_pair_blobs, v3) \<Rightarrow>
       (case pop_int x v3 of
         (Inl e, v4) \<Rightarrow> (Inl e, v4)
       | (Inr signature_count, v4) \<Rightarrow>
       if signature_count < 0 \<or> signature_count > key_count
       then (Inl (ScriptError
               (''invalid number of signatures: '' @ str_int signature_count @ '' for '' @
                str_int key_count @ '' keys'') (Some SIG_COUNT)), v4)
       else
       (case pop_n (nat signature_count) v4 of
         (Inl e, v5) \<Rightarrow> (Inl e, v5)
       | (Inr sig_blobs, v5) \<Rightarrow>
       (case pop v5 of
         (Inl e, v6) \<Rightarrow> (Inl e, v6)
       | (Inr hack_byte, v6) \<Rightarrow>
       if flags AND VERIFY_NULLDUMMY \<noteq> 0 \<and> hack_byte \<noteq> []
       then (Inl (ScriptError ''bad dummy byte in checkmultisig'' (Some SIG_NULLDUMMY)), v6)
       else
       (case sig_blob_matches x v6 sig_blobs public_pair_blobs flags of
          Inl e \<Rightarrow> (Inl e, v6)
        | Inr sig_blob_indices \<Rightarrow>
            checkmultisig_accept flags sig_blobs v6 sig_blob_indices)))))))"


section \<open>Vocabulary of the statements\<close>

text \<open>
  The stack \<^verbatim>\<open>do_OP_CHECKMULTISIG\<close> expects, top first: the key count, the key blobs, the
  signature count, the signature blobs, the dummy item. \<open>multisig_stack\<close> says that \<open>v\<close> holds
  such a stack whose counts are in range and whose dummy passes \<^verbatim>\<open>VERIFY_NULLDUMMY\<close>, so that
  the operation reaches the matcher with \<open>sigs\<close> and \<open>keys\<close>; \<open>multisig_popped\<close> is the state
  the pops leave.
\<close>

definition multisig_stack ::
  "ext \<Rightarrow> vm \<Rightarrow> bytes \<Rightarrow> bytes list \<Rightarrow> bytes \<Rightarrow> bytes list \<Rightarrow> bytes \<Rightarrow> bytes list \<Rightarrow> bool" where
  "multisig_stack x v kc keys sc sigs hack rest =
     (stack v = kc # keys @ sc # sigs @ hack # rest
      \<and> int_from_script_bytes x kc = Inr (int (length keys)) \<and> length keys \<le> 20
      \<and> int_from_script_bytes x sc = Inr (int (length sigs)) \<and> length sigs \<le> length keys
      \<and> (vm_flags v AND VERIFY_NULLDUMMY = 0 \<or> hack = []))"

definition multisig_popped :: "vm \<Rightarrow> bytes list \<Rightarrow> bytes list \<Rightarrow> vm" where
  "multisig_popped v keys rest =
     v\<lparr>stack := rest, op_count := op_count v + int (length keys)\<rparr>"

text \<open>
  The two key checks of \<^verbatim>\<open>do_OP_CHECKSIG\<close> that raise a \<^verbatim>\<open>ScriptError\<close> before the
  signature is parsed (lines 141-145) both pass.
\<close>

definition key_checks_pass :: "int \<Rightarrow> bytes \<Rightarrow> bool" where
  "key_checks_pass flags pair_blob =
     ((flags AND VERIFY_STRICTENC = 0 \<or> check_public_key_encoding pair_blob = Inr ())
      \<and> (flags AND VERIFY_WITNESS_PUBKEYTYPE = 0
         \<or> check_witness_pubkeytype pair_blob = Inr ()))"

text \<open>
  The signature-blob parser as section 4.5 of the spec words it, to compare with
  \<open>parse_signature_blob\<close>: the structure validation when STRICTENC, DERSIG or LOW_S is set, the
  hash-type validation when STRICTENC is set, the decoding always, the low-S check when LOW_S
  is set, and the first failure in this order as the result.
\<close>

definition flag_set :: "int \<Rightarrow> int \<Rightarrow> bool" where
  "flag_set flags f = (flags AND f \<noteq> 0)"

definition parse_signature_blob_spec ::
  "ext \<Rightarrow> bytes \<Rightarrow> int \<Rightarrow> exn + ((int \<times> int) \<times> int)" where
  "parse_signature_blob_spec x sig_blob flags =
     (case (if flag_set flags VERIFY_STRICTENC \<or> flag_set flags VERIFY_DERSIG
               \<or> flag_set flags VERIFY_LOW_S
            then check_valid_signature sig_blob else Inr ()) of
        Inl e \<Rightarrow> Inl e
      | Inr _ \<Rightarrow>
     (case (if flag_set flags VERIFY_STRICTENC
            then check_defined_hashtype_signature sig_blob else Inr ()) of
        Inl e \<Rightarrow> Inl e
      | Inr _ \<Rightarrow>
     (case sigdecode_der x (butlast sig_blob) of
        Inl e \<Rightarrow> Inl e
      | Inr sig_pair \<Rightarrow>
     (case (if flag_set flags VERIFY_LOW_S
            then check_low_der_signature x sig_pair else Inr ()) of
        Inl e \<Rightarrow> Inl e
      | Inr _ \<Rightarrow> Inr (sig_pair, uint (last sig_blob))))))"

section \<open>Values for the collaborators\<close>

text \<open>
  To run the operations on concrete stacks the collaborators need values. In this stand-in a
  signature blob is \<open>[r, s, hash_type]\<close>, a key blob is \<open>[k]\<close> and stands for the pair
  \<open>(k, 0)\<close>, and the signature \<open>(r, s)\<close> is valid for the pair \<open>(r, 0)\<close> alone. Script
  integers are the empty string (0) and single bytes.
\<close>

definition stub_ext :: ext where
  "stub_ext =
     \<lparr>curve_p = 23,
      sigdecode_der =
        (\<lambda>b. case b of [r, s] \<Rightarrow> Inr (uint r, uint s) | _ \<Rightarrow> Inl UnexpectedDER),
      sec_to_public_pair =
        (\<lambda>b strict. case b of [k] \<Rightarrow> Inr (uint k, 0) | _ \<Rightarrow> Inl EncodingError),
      possible_public_pairs_for_signature = (\<lambda>h sig_pair. Inr {(fst sig_pair, 0)}),
      ecdsa_verify = (\<lambda>public_pair h sig_pair. public_pair = (fst sig_pair, 0)),
      signature_for_hash_type_f = (\<lambda>signature_type blobs v. signature_type),
      int_from_script_bytes =
        (\<lambda>b. case b of [] \<Rightarrow> Inr 0 | [c] \<Rightarrow> Inr (uint c)
              | _ \<Rightarrow> Inl (ValueError ''not a small integer''))\<rparr>"

text \<open>
  The parameters of the curve are set in the package \<^verbatim>\<open>ecdsa\<close>, which is not among the
  sources. These two are the numbers of secp256k1 as SEC 2 gives them: the prime of the
  field, which is what the accessor \<^verbatim>\<open>curve().p()\<close> of line 93 names, and the order of the
  generator, which is what the low-S rule of the Bitcoin protocol refers to.
\<close>

definition secp256k1_p :: int where
  "secp256k1_p = 2 ^ 256 - 2 ^ 32 - 977"

definition secp256k1_order :: int where
  "secp256k1_order = 0xFFFFFFFFFFFFFFFFFFFFFFFFFFFFFFFEBAAEDCE6AF48A03BBFD25E8CD0364141"

section \<open>Lemmas about the operations\<close>

declare find_public_pair.simps [simp del]

subsection \<open>The re-check of the order is strict sortedness\<close>

lemma indices_increasing_sorted: "indices_increasing xs = sorted_wrt (<) xs"
  by (induction xs rule: indices_increasing.induct) auto

subsection \<open>What \<open>find_public_pair\<close> returns\<close>

lemma find_public_pair_result:
  "find_public_pair x blobs ppp sc se w i = Inr r \<Longrightarrow> r = - 1 \<or> i < r"
proof (induction x blobs ppp sc se w i arbitrary: r rule: find_public_pair.induct)
  case (1 x blobs ppp sc se w i)
  show ?case
  proof (cases "int (length blobs) > sc")
    case False
    with "1.prems" show ?thesis by (simp add: find_public_pair.simps)
  next
    case longer: True
    show ?thesis
    proof (cases blobs)
      case Nil
      with longer "1.prems" show ?thesis by (simp add: find_public_pair.simps)
    next
      case (Cons b rest)
      let ?chk = "bindE (if se then check_public_key_encoding b else Inr ()) (\<lambda>_.
                  bindE (if w \<noteq> 0 then check_witness_pubkeytype b else Inr ()) (\<lambda>_.
                  (case sec_to_public_pair x b se of
                     Inl EncodingError \<Rightarrow> Inr None
                   | Inl e \<Rightarrow> Inl e
                   | Inr p \<Rightarrow> Inr (Some p))))"
      show ?thesis
      proof (cases ?chk)
        case (Inl e)
        with longer Cons "1.prems" show ?thesis by (simp add: find_public_pair.simps)
      next
        case (Inr pp)
        show ?thesis
        proof (cases "case pp of None \<Rightarrow> False | Some p \<Rightarrow> p \<in> ppp")
          case True
          with longer Cons Inr "1.prems" show ?thesis
            by (simp add: find_public_pair.simps)
        next
          case False
          with longer Cons Inr "1.prems"
          have "find_public_pair x rest ppp sc se w (i + 1) = Inr r"
            by (simp add: find_public_pair.simps)
          from "1.IH" [OF longer Cons Inr False this]
          show ?thesis by auto
        qed
      qed
    qed
  qed
qed

text \<open>
  Whatever cursor it is given, the scan begins at the first key of the list it is given,
  and \<^verbatim>\<open>sig_blob_matches\<close> gives it the whole list every time.
\<close>

lemma find_public_pair_scans_from_first_key:
  assumes "sec_to_public_pair x k False = Inr p" and "p \<in> ppp"
    and "signature_count < 1 + int (length ks)"
  shows "find_public_pair x (k # ks) ppp signature_count False 0 ppb_idx = Inr (ppb_idx + 1)"
  using assms by (simp add: find_public_pair.simps bindE_def)

subsection \<open>The loop of \<open>sig_blob_matches\<close>\<close>

lemma sig_blob_matches_loop_stops:
  "- 1 \<in> set idxs \<Longrightarrow>
   sig_blob_matches_loop x v btr keys flags cache idxs i sigs = Inr idxs"
  by (cases sigs) auto

lemma sig_blob_matches_empty_first:
  "length ([] # sigs) \<le> length keys \<Longrightarrow>
   sig_blob_matches x v ([] # sigs) keys flags = Inr [- 1]"
  by (simp add: sig_blob_matches_def parse_signature_blob_def sig_blob_matches_loop_stops)

lemma sig_blob_matches_loop_extends:
  "sig_blob_matches_loop x v btr keys flags cache idxs i sigs = Inr res \<Longrightarrow>
   set idxs \<subseteq> set res"
proof (induction sigs arbitrary: cache idxs i)
  case Nil
  then show ?case by simp
next
  case (Cons s sigs)
  from Cons.prems show ?case
    by (auto split: if_splits sum.splits exn.splits option.splits prod.splits
        dest!: Cons.IH)
qed

text \<open>
  The invariant of the loop: the indices recorded so far are strictly increasing and none
  exceeds the cursor. A result without \<open>- 1\<close> then is strictly increasing, since every index
  appended is the new cursor and exceeds the old one.
\<close>

lemma sig_blob_matches_loop_sorted:
  "sig_blob_matches_loop x v btr keys flags cache idxs i sigs = Inr res \<Longrightarrow>
   - 1 \<notin> set res \<Longrightarrow> sorted_wrt (<) idxs \<Longrightarrow> list_all (\<lambda>j. j \<le> i) idxs \<Longrightarrow>
   sorted_wrt (<) res"
proof (induction sigs arbitrary: cache idxs i)
  case Nil
  then show ?case by simp
next
  case (Cons s sigs)
  show ?case
  proof (cases "length (s # sigs) \<le> length keys \<and> - 1 \<notin> set idxs")
    case False
    with Cons.prems show ?thesis by (auto split: if_splits)
  next
    case running: True
    show ?thesis
    proof (cases "parse_signature_blob x s flags")
      case (Inl e)
      with running Cons.prems(1) have
        "sig_blob_matches_loop x v btr keys flags cache (idxs @ [- 1]) i sigs = Inr res"
        by (cases e) auto
      from sig_blob_matches_loop_extends [OF this] Cons.prems(2) show ?thesis by auto
    next
      case (Inr pt)
      obtain sig_pair signature_type where pt: "pt = (sig_pair, signature_type)"
        by (cases pt)
      from running Inr pt Cons.prems(1) obtain cache' ppp j where
        f: "find_public_pair x keys ppp (int (length sigs)) (flags AND VERIFY_STRICTENC \<noteq> 0)
              (flags AND VERIFY_WITNESS_PUBKEYTYPE) i = Inr j"
        and r: "sig_blob_matches_loop x v btr keys flags cache' (idxs @ [j]) j sigs = Inr res"
        by (auto split: sum.splits exn.splits option.splits prod.splits simp: Let_def)
      from sig_blob_matches_loop_extends [OF r] Cons.prems(2) have "j \<noteq> - 1" by auto
      with find_public_pair_result [OF f] have "i < j" by simp
      with Cons.prems(3,4)
      have "sorted_wrt (<) (idxs @ [j])" "list_all (\<lambda>k. k \<le> j) (idxs @ [j])"
        by (auto simp: sorted_wrt_append list_all_iff)
      with Cons.IH [OF r Cons.prems(2)] show ?thesis by simp
    qed
  qed
qed

text \<open>
  For any collaborators and no flags: two signatures given in the order opposite to that of
  their keys get the indices 1 and 2, and one signature given twice gets the indices 0 and
  1. Neither list holds \<open>- 1\<close>, both are strictly increasing.
\<close>

lemma sig_blob_matches_out_of_order:
  assumes "parse_signature_blob x s1 0 = Inr (p1, t1)"
    and "parse_signature_blob x s0 0 = Inr (p0, t0)"
    and "possible_public_pairs_for_signature x
           (signature_for_hash_type_f x t1 [s1, s0] v) p1 = Inr P1"
    and "possible_public_pairs_for_signature x
           (signature_for_hash_type_f x t0 [s1, s0] v) p0 = Inr P0"
    and "sec_to_public_pair x k0 False = Inr q0" and "sec_to_public_pair x k1 False = Inr q1"
    and "q0 \<notin> P1" and "q1 \<in> P1" and "q0 \<in> P0"
  shows "sig_blob_matches x v [s1, s0] [k0, k1, k2] 0 = Inr [1, 2]"
  using assms
  by (cases "t0 = t1")
    (simp_all add: sig_blob_matches_def find_public_pair.simps bindE_def Let_def)

lemma sig_blob_matches_key_reused:
  assumes "parse_signature_blob x s0 0 = Inr (p0, t0)"
    and "possible_public_pairs_for_signature x
           (signature_for_hash_type_f x t0 [s0, s0] v) p0 = Inr P0"
    and "sec_to_public_pair x k0 False = Inr q0" and "q0 \<in> P0"
  shows "sig_blob_matches x v [s0, s0] [k0, k1] 0 = Inr [0, 1]"
  using assms
  by (simp add: sig_blob_matches_def find_public_pair.simps bindE_def Let_def)

subsection \<open>CHECKMULTISIG on a well-formed stack\<close>

lemma pop_n_stack:
  "stack v = bs @ rest \<Longrightarrow> pop_n (length bs) v = (Inr bs, v\<lparr>stack := rest\<rparr>)"
proof (induction bs arbitrary: v)
  case Nil
  then show ?case by simp
next
  case (Cons b bs)
  then show ?case by (simp add: pop_def)
qed

lemma do_OP_CHECKMULTISIG_on_stack:
  assumes "multisig_stack x v kc keys sc sigs hack rest"
  shows "do_OP_CHECKMULTISIG x v =
     (case sig_blob_matches x (multisig_popped v keys rest) sigs keys (vm_flags v) of
        Inl e \<Rightarrow> (Inl e, multisig_popped v keys rest)
      | Inr idxs \<Rightarrow>
          checkmultisig_accept (vm_flags v) sigs (multisig_popped v keys rest) idxs)"
proof -
  from assms have st: "stack v = kc # keys @ sc # sigs @ hack # rest"
    and kc: "int_from_script_bytes x kc = Inr (int (length keys))" and kl: "length keys \<le> 20"
    and sc: "int_from_script_bytes x sc = Inr (int (length sigs))"
    and sl: "length sigs \<le> length keys"
    and hk: "vm_flags v AND VERIFY_NULLDUMMY = 0 \<or> hack = []"
    by (simp_all add: multisig_stack_def)
  let ?n = "op_count v + int (length keys)"
  let ?v2 = "v\<lparr>stack := keys @ sc # sigs @ hack # rest, op_count := ?n\<rparr>"
  let ?v3 = "v\<lparr>stack := sc # sigs @ hack # rest, op_count := ?n\<rparr>"
  let ?v4 = "v\<lparr>stack := sigs @ hack # rest, op_count := ?n\<rparr>"
  let ?v5 = "v\<lparr>stack := hack # rest, op_count := ?n\<rparr>"
  have p1: "pop_int x v =
      (Inr (int (length keys)), v\<lparr>stack := keys @ sc # sigs @ hack # rest\<rparr>)"
    using st kc by (simp add: pop_int_def pop_def)
  have p2: "pop_n (length keys) ?v2 = (Inr keys, ?v3)"
    using pop_n_stack [of ?v2 keys "sc # sigs @ hack # rest"] by simp
  have p3: "pop_int x ?v3 = (Inr (int (length sigs)), ?v4)"
    using sc by (simp add: pop_int_def pop_def)
  have p4: "pop_n (length sigs) ?v4 = (Inr sigs, ?v5)"
    using pop_n_stack [of ?v4 sigs "hack # rest"] by simp
  have p5: "pop ?v5 = (Inr hack, multisig_popped v keys rest)"
    by (simp add: pop_def multisig_popped_def)
  show ?thesis
    unfolding do_OP_CHECKMULTISIG_def Let_def p1
    using kl sl hk
    by (auto simp: p2 p3 p4 p5 split: sum.splits)
qed

text \<open>The acceptance step on any index list, with the re-check read as strict sortedness.\<close>

lemma checkmultisig_accept_result:
  "checkmultisig_accept flags sig_blobs v idxs =
     (if - 1 \<notin> set idxs \<and> length idxs = length sig_blobs \<and> sorted_wrt (<) idxs
      then (Inr (), vm_append v VM_TRUE)
      else if flags AND VERIFY_NULLFAIL \<noteq> 0 \<and> (\<exists>b\<in>set sig_blobs. b \<noteq> [])
      then (Inl (ScriptError ''bad signature not NULL'' (Some NULLFAIL)), v)
      else (Inr (), vm_append v VM_FALSE))"
  by (simp add: checkmultisig_accept_def Let_def indices_increasing_sorted list_ex_iff
      VM_TRUE_def VM_FALSE_def)


subsection \<open>CHECKSIG: what the handler catches\<close>

text \<open>
  Whatever the flags and whether or not the signature blob is empty: once the key checks
  pass, a failure of parsing the signature blob or of decoding the key blob that the handler
  catches ends the operation with false pushed. The NULLFAIL test of lines 157-159 is not
  reached.
\<close>

lemma checksig_soft_failure_any_flags:
  assumes "stack v = pair_blob # sig_blob # rest"
    and "key_checks_pass (vm_flags v) pair_blob"
    and "parse_signature_blob x sig_blob (vm_flags v) = Inl e
         \<or> (parse_signature_blob x sig_blob (vm_flags v) = Inr p
            \<and> sec_to_public_pair x pair_blob (vm_flags v AND VERIFY_STRICTENC \<noteq> 0) = Inl e)"
    and "caught e"
  shows "do_OP_CHECKSIG x v = (Inr (), v\<lparr>stack := VM_FALSE # rest\<rparr>)"
  using assms
  by (cases p)
    (auto simp: do_OP_CHECKSIG_def Let_def pop_def bindE_def checksig_except_def
      key_checks_pass_def vm_append_def)

subsection \<open>The validators\<close>

lemma check_public_key_encoding_cases:
  "check_public_key_encoding blob = Inr ()
   \<or> check_public_key_encoding blob = Inl invalid_public_key_blob"
  by (cases blob) (auto simp: check_public_key_encoding_def byte2int_def bindE_def Let_def)

lemma flags_any_of_three:
  "(flags AND (VERIFY_DERSIG OR VERIFY_LOW_S OR VERIFY_STRICTENC) \<noteq> 0) =
   (flags AND VERIFY_STRICTENC \<noteq> 0 \<or> flags AND VERIFY_DERSIG \<noteq> 0
    \<or> flags AND VERIFY_LOW_S \<noteq> 0)"
  by (auto simp: bit.conj_disj_distrib or_eq_0_iff)

text \<open>
  The low-S check for whatever number \<^verbatim>\<open>curve().p()\<close> is: it accepts exactly the \<open>s\<close> up to
  half of that number.
\<close>

lemma check_low_der_signature_iff:
  "check_low_der_signature x (r, s) =
     (if s \<le> curve_p x - s then Inr ()
      else Inl (ScriptError ''signature has high S value'' (Some SIG_HIGH_S)))"
  by (simp add: check_low_der_signature_def Let_def)

lemma low_s_half: "(s \<le> p - s) = (s \<le> p div (2::int))"
  by presburger

text \<open>
  The hash-type check on a non-empty blob: it accepts exactly when the last byte without the
  ANYONECANPAY bit lies between ALL and SINGLE, it rejects with \<open>SIG_HASHTYPE\<close>, and of the
  256 values of that byte it accepts the six that are ALL, NONE or SINGLE with or without
  ANYONECANPAY.
\<close>

lemma check_defined_hashtype_signature_nonempty:
  "sig \<noteq> [] \<Longrightarrow>
   check_defined_hashtype_signature sig =
     (if SIGHASH_ALL \<le> uint (last sig) AND NOT SIGHASH_ANYONECANPAY
         \<and> uint (last sig) AND NOT SIGHASH_ANYONECANPAY \<le> SIGHASH_SINGLE
      then Inr ()
      else Inl (ScriptError ''bad hash type after signature'' (Some SIG_HASHTYPE)))"
  by (auto simp: check_defined_hashtype_signature_def Let_def)

lemma check_defined_hashtype_signature_accepted_bytes:
  "filter (\<lambda>b. check_defined_hashtype_signature [b] = Inr ()) (map of_nat [0 ..< 256]) =
     [1, 2, 3, 0x81, 0x82, 0x83]"
  by code_simp

section \<open>The claims\<close>

subsection \<open>C1: signatures out of key order\<close>

text \<open>
  C1 says that CHECKMULTISIG pushes false when the signatures, each valid for some key of the
  list, come in an order that would need a decreasing key index, because the scan for a
  signature resumes after the key the previous signature matched, so that no key serves
  twice. The code does otherwise: every call of \<open>find_public_pair\<close> scans the whole key list
  from its first key and only the counter \<open>ppb_idx\<close> goes on. With the keys \<open>[0]\<close>, \<open>[1]\<close>,
  \<open>[2]\<close> and the two signatures in the order: valid for \<open>[1]\<close>, valid for \<open>[0]\<close>, the recorded
  indices are 1 and 2 and true is pushed; and the one signature valid for \<open>[0]\<close>, given twice
  for the keys \<open>[0]\<close>, \<open>[1]\<close>, is accepted as two signatures. The lemmas
  \<open>sig_blob_matches_out_of_order\<close> and \<open>sig_blob_matches_key_reused\<close> say the same of the
  matcher for any collaborators.
\<close>

theorem checkmultisig_out_of_order_accepted:
  "do_OP_CHECKMULTISIG stub_ext
     \<lparr>stack = [[3], [0], [1], [2], [2], [1, 1, 1], [0, 1, 1], []],
      vm_flags = 0, op_count = 0\<rparr> =
     (Inr (), \<lparr>stack = [VM_TRUE], vm_flags = 0, op_count = 3\<rparr>)
   \<and> sig_blob_matches stub_ext \<lparr>stack = [], vm_flags = 0, op_count = 3\<rparr>
       [[1, 1, 1], [0, 1, 1]] [[0], [1], [2]] 0 = Inr [1, 2]
   \<and> do_OP_CHECKMULTISIG stub_ext
     \<lparr>stack = [[2], [0], [1], [2], [0, 1, 1], [0, 1, 1], []],
      vm_flags = 0, op_count = 0\<rparr> =
     (Inr (), \<lparr>stack = [VM_TRUE], vm_flags = 0, op_count = 2\<rparr>)"
  by code_simp

subsection \<open>C2: the low-S check\<close>

text \<open>
  C2 says that the low-S check accepts a pair \<open>(r, s)\<close> exactly when \<open>s\<close> is at most half the
  order of the curve and raises \<open>SIG_HIGH_S\<close> otherwise. The code compares \<open>s\<close> with
  \<^verbatim>\<open>curve().p() - s\<close>, the prime of the field in place of the order of the generator, so it
  accepts every \<open>s\<close> up to half the prime (\<open>check_low_der_signature_iff\<close>). With the numbers
  of secp256k1 the value \<open>s\<close> just above half the order is accepted although
  \<open>order - s < s\<close>.
\<close>

theorem check_low_der_signature_above_half_order:
  "check_low_der_signature (stub_ext\<lparr>curve_p := secp256k1_p\<rparr>)
     (1, secp256k1_order div 2 + 1) = Inr ()
   \<and> secp256k1_order - (secp256k1_order div 2 + 1) < secp256k1_order div 2 + 1"
  by (simp add: check_low_der_signature_def secp256k1_p_def secp256k1_order_def stub_ext_def)

subsection \<open>C3: the hash-type check\<close>

text \<open>
  C3 says that the hash-type check accepts a non-empty blob exactly when its last byte,
  without the ANYONECANPAY bit, lies between ALL and SINGLE, and that every rejection, the
  one of the empty blob included, carries the code \<open>SIG_HASHTYPE\<close>. For non-empty blobs the
  code does so (\<open>check_defined_hashtype_signature_nonempty\<close>). For the empty blob it raises a
  \<open>ScriptError\<close> with the message alone: no error code is passed.
\<close>

theorem check_defined_hashtype_signature_empty:
  "check_defined_hashtype_signature [] = Inl (ScriptError ''signature is length 0'' None)"
  by (simp add: check_defined_hashtype_signature_def)

subsection \<open>C4: the size check of strict DER validation\<close>

text \<open>
  C4. Every byte sequence whose length, the hash-type byte included, is outside the range
  9 to 73 is rejected by \<open>check_valid_signature\<close> with a \<open>ScriptError\<close> of code \<open>SIG_DER\<close>:
  the size test is the first one of \<open>check_valid_signature_1\<close>.
\<close>

theorem check_valid_signature_bad_size:
  "length sig < 9 \<or> length sig > 73 \<Longrightarrow>
   check_valid_signature sig = Inl (ScriptError ''bad signature size'' (Some SIG_DER))"
  by (auto simp: check_valid_signature_def check_valid_signature_1_def iterbytes_def
      bindE_def Let_def)

theorem check_valid_signature_bad_size_witness:
  "length [0x30, 0x06 :: byte] < 9 \<and>
   check_valid_signature [0x30, 0x06] = Inl (ScriptError ''bad signature size'' (Some SIG_DER))"
  using check_valid_signature_bad_size [of "[0x30, 0x06]"] by simp

subsection \<open>C5: the signature-blob parser\<close>

text \<open>
  C5, as amended. An empty blob is rejected first, with \<^verbatim>\<open>ValueError("empty sig_blob")\<close>,
  under every flag combination and before any validation or decoding. On a non-empty blob
  the parser is the composition the claim describes: the strict DER validation runs exactly
  when STRICTENC, DERSIG or LOW_S is set, the hash-type validation exactly when STRICTENC is
  set, the decoding whenever the validations before it passed, whatever the flags, the low-S
  check exactly when LOW_S is set, and the result is the first failure in this order.
\<close>

theorem parse_signature_blob_pipeline:
  "parse_signature_blob x sig_blob flags =
     (if sig_blob = [] then Inl (ValueError ''empty sig_blob'')
      else parse_signature_blob_spec x sig_blob flags)"
proof (cases "sig_blob = []")
  case True
  then show ?thesis by (simp add: parse_signature_blob_def)
next
  case False
  then show ?thesis
    unfolding parse_signature_blob_def parse_signature_blob_spec_def flag_set_def
      flags_any_of_three bindE_def Let_def
    by simp
qed

text \<open>
  The claim as stated fails at the empty blob with DERSIG set: the composition it describes
  would run the structure validation, which rejects the empty blob with \<open>SIG_DER\<close>; the code
  raises \<^verbatim>\<open>ValueError\<close>, which CHECKSIG and the matcher catch.
\<close>

theorem parse_signature_blob_empty_counterexample:
  "parse_signature_blob stub_ext [] VERIFY_DERSIG = Inl (ValueError ''empty sig_blob'')
   \<and> parse_signature_blob_spec stub_ext [] VERIFY_DERSIG =
       Inl (ScriptError ''bad signature size'' (Some SIG_DER))"
  by code_simp

subsection \<open>C6: hard and soft failures of CHECKSIG\<close>

text \<open>
  C6, as amended. On a stack with the key blob on top of the signature blob:
  under STRICTENC a key blob of bad encoding makes \<open>do_OP_CHECKSIG\<close> raise \<open>PUBKEYTYPE\<close> at
  once. When the key checks pass, a failure of parsing the signature blob or of decoding the
  key blob that is raised as \<^verbatim>\<open>UnexpectedDER\<close>, \<^verbatim>\<open>ValueError\<close> or \<^verbatim>\<open>EncodingError\<close> is a
  soft failure: false is pushed and the operation returns. A failure of the signature blob
  that is raised as a \<^verbatim>\<open>ScriptError\<close> (the validations that DERSIG, LOW_S and STRICTENC
  switch on) is not caught: the operation raises it.
\<close>

theorem checksig_hard_and_soft_failures:
  assumes "stack v = pair_blob # sig_blob # rest"
  shows
   "(vm_flags v AND VERIFY_STRICTENC \<noteq> 0 \<and> check_public_key_encoding pair_blob \<noteq> Inr ()
       \<longrightarrow> do_OP_CHECKSIG x v =
             (Inl (ScriptError ''invalid public key blob'' (Some PUBKEYTYPE)), v\<lparr>stack := rest\<rparr>))
    \<and> (key_checks_pass (vm_flags v) pair_blob
        \<and> parse_signature_blob x sig_blob (vm_flags v) = Inl e \<and> caught e
       \<longrightarrow> do_OP_CHECKSIG x v = (Inr (), v\<lparr>stack := VM_FALSE # rest\<rparr>))
    \<and> (key_checks_pass (vm_flags v) pair_blob
        \<and> parse_signature_blob x sig_blob (vm_flags v) = Inr p
        \<and> sec_to_public_pair x pair_blob (vm_flags v AND VERIFY_STRICTENC \<noteq> 0) = Inl e
        \<and> caught e
       \<longrightarrow> do_OP_CHECKSIG x v = (Inr (), v\<lparr>stack := VM_FALSE # rest\<rparr>))
    \<and> (key_checks_pass (vm_flags v) pair_blob
        \<and> parse_signature_blob x sig_blob (vm_flags v) = Inl (ScriptError m c)
       \<longrightarrow> do_OP_CHECKSIG x v = (Inl (ScriptError m c), v\<lparr>stack := rest\<rparr>))"
proof (intro conjI impI)
  assume "vm_flags v AND VERIFY_STRICTENC \<noteq> 0 \<and> check_public_key_encoding pair_blob \<noteq> Inr ()"
  with check_public_key_encoding_cases [of pair_blob]
  show "do_OP_CHECKSIG x v =
          (Inl (ScriptError ''invalid public key blob'' (Some PUBKEYTYPE)), v\<lparr>stack := rest\<rparr>)"
    using assms
    by (auto simp: do_OP_CHECKSIG_def Let_def pop_def bindE_def checksig_except_def caught_def
        invalid_public_key_blob_def)
next
  assume "key_checks_pass (vm_flags v) pair_blob
        \<and> parse_signature_blob x sig_blob (vm_flags v) = Inl e \<and> caught e"
  then show "do_OP_CHECKSIG x v = (Inr (), v\<lparr>stack := VM_FALSE # rest\<rparr>)"
    using assms
    by (auto simp: do_OP_CHECKSIG_def Let_def pop_def bindE_def checksig_except_def
        key_checks_pass_def
        vm_append_def)
next
  assume "key_checks_pass (vm_flags v) pair_blob
        \<and> parse_signature_blob x sig_blob (vm_flags v) = Inr p
        \<and> sec_to_public_pair x pair_blob (vm_flags v AND VERIFY_STRICTENC \<noteq> 0) = Inl e
        \<and> caught e"
  then show "do_OP_CHECKSIG x v = (Inr (), v\<lparr>stack := VM_FALSE # rest\<rparr>)"
    using assms
    by (cases p)
      (auto simp: do_OP_CHECKSIG_def Let_def pop_def bindE_def checksig_except_def
        key_checks_pass_def
        vm_append_def)
next
  assume "key_checks_pass (vm_flags v) pair_blob
        \<and> parse_signature_blob x sig_blob (vm_flags v) = Inl (ScriptError m c)"
  then show "do_OP_CHECKSIG x v = (Inl (ScriptError m c), v\<lparr>stack := rest\<rparr>)"
    using assms
    by (auto simp: do_OP_CHECKSIG_def Let_def pop_def bindE_def checksig_except_def
        caught_def key_checks_pass_def)
qed

theorem checksig_hard_and_soft_failures_witness:
  "do_OP_CHECKSIG stub_ext \<lparr>stack = [[5], [1, 1, 1]], vm_flags = VERIFY_STRICTENC, op_count = 0\<rparr> =
     (Inl (ScriptError ''invalid public key blob'' (Some PUBKEYTYPE)),
      \<lparr>stack = [], vm_flags = VERIFY_STRICTENC, op_count = 0\<rparr>)
   \<and> do_OP_CHECKSIG stub_ext \<lparr>stack = [[5], [1, 1]], vm_flags = 0, op_count = 0\<rparr> =
     (Inr (), \<lparr>stack = [VM_FALSE], vm_flags = 0, op_count = 0\<rparr>)
   \<and> do_OP_CHECKSIG stub_ext \<lparr>stack = [[], [1, 1, 1]], vm_flags = 0, op_count = 0\<rparr> =
     (Inr (), \<lparr>stack = [VM_FALSE], vm_flags = 0, op_count = 0\<rparr>)
   \<and> do_OP_CHECKSIG stub_ext \<lparr>stack = [[5], [1, 1, 1]], vm_flags = VERIFY_LOW_S, op_count = 0\<rparr> =
     (Inl (ScriptError ''bad signature size'' (Some SIG_DER)),
      \<lparr>stack = [], vm_flags = VERIFY_LOW_S, op_count = 0\<rparr>)"
proof -
  let ?v1 = "\<lparr>stack = [[5], [1, 1, 1]], vm_flags = VERIFY_STRICTENC, op_count = 0\<rparr>"
  let ?v2 = "\<lparr>stack = [[5], [1, 1]], vm_flags = 0, op_count = 0\<rparr>"
  let ?v3 = "\<lparr>stack = [[], [1, 1, 1]], vm_flags = 0, op_count = 0\<rparr>"
  let ?v4 = "\<lparr>stack = [[5], [1, 1, 1]], vm_flags = VERIFY_LOW_S, op_count = 0\<rparr>"
  have h1: "vm_flags ?v1 AND VERIFY_STRICTENC \<noteq> 0 \<and> check_public_key_encoding [5] \<noteq> Inr ()"
    by code_simp
  have h2: "key_checks_pass (vm_flags ?v2) [5]
      \<and> parse_signature_blob stub_ext [1, 1] (vm_flags ?v2) = Inl UnexpectedDER \<and> caught UnexpectedDER"
    by code_simp
  have h3: "key_checks_pass (vm_flags ?v3) []
      \<and> parse_signature_blob stub_ext [1, 1, 1] (vm_flags ?v3) = Inr ((1, 1), 1)
      \<and> sec_to_public_pair stub_ext [] (vm_flags ?v3 AND VERIFY_STRICTENC \<noteq> 0) = Inl EncodingError
      \<and> caught EncodingError"
    by code_simp
  have h4: "key_checks_pass (vm_flags ?v4) [5]
      \<and> parse_signature_blob stub_ext [1, 1, 1] (vm_flags ?v4) =
           Inl (ScriptError ''bad signature size'' (Some SIG_DER))"
    by code_simp
  have c1: "do_OP_CHECKSIG stub_ext ?v1 =
     (Inl (ScriptError ''invalid public key blob'' (Some PUBKEYTYPE)), ?v1\<lparr>stack := []\<rparr>)"
    using h1 checksig_hard_and_soft_failures
      [where v = ?v1 and pair_blob = "[5]" and sig_blob = "[1, 1, 1]" and rest = "[]" and x = stub_ext]
    by simp
  have c2: "do_OP_CHECKSIG stub_ext ?v2 = (Inr (), ?v2\<lparr>stack := VM_FALSE # []\<rparr>)"
    using h2 checksig_hard_and_soft_failures
      [where v = ?v2 and pair_blob = "[5]" and sig_blob = "[1, 1]" and rest = "[]" and x = stub_ext
         and e = UnexpectedDER]
    by simp
  have c3: "do_OP_CHECKSIG stub_ext ?v3 = (Inr (), ?v3\<lparr>stack := VM_FALSE # []\<rparr>)"
    using h3 checksig_hard_and_soft_failures
      [where v = ?v3 and pair_blob = "[]" and sig_blob = "[1, 1, 1]" and rest = "[]" and x = stub_ext
         and e = EncodingError and p = "((1, 1), 1)"]
    by simp
  have c4: "do_OP_CHECKSIG stub_ext ?v4 =
     (Inl (ScriptError ''bad signature size'' (Some SIG_DER)), ?v4\<lparr>stack := []\<rparr>)"
    using h4 checksig_hard_and_soft_failures
      [where v = ?v4 and pair_blob = "[5]" and sig_blob = "[1, 1, 1]" and rest = "[]" and x = stub_ext
         and m = "''bad signature size''" and c = "Some SIG_DER"]
    by simp
  from c1 c2 c3 c4 show ?thesis by simp
qed

text \<open>
  The claim as stated fails under DERSIG: a signature blob of three bytes is malformed DER,
  and the operation raises \<open>SIG_DER\<close> where the claim has it push false.
\<close>

theorem checksig_strict_der_counterexample:
  "do_OP_CHECKSIG stub_ext \<lparr>stack = [[2], [1, 1, 1]], vm_flags = VERIFY_DERSIG, op_count = 0\<rparr> =
     (Inl (ScriptError ''bad signature size'' (Some SIG_DER)),
      \<lparr>stack = [], vm_flags = VERIFY_DERSIG, op_count = 0\<rparr>)"
  by code_simp

subsection \<open>C7: NULLFAIL\<close>

text \<open>
  C7 says that under NULLFAIL, when a signature check fails, any non-empty signature blob
  involved makes the operation raise \<open>NULLFAIL\<close>, and only the empty blob fails with false
  pushed. CHECKMULTISIG does so. CHECKSIG does so only when the blob parses, the key decodes
  and the ECDSA verification fails: a non-empty blob that does not decode, or a key blob
  that does not, is caught by the handler of line 148, which pushes false and returns before
  the NULLFAIL test of lines 157-159 (\<open>checksig_soft_failure_any_flags\<close>). With NULLFAIL set,
  the key \<open>[5]\<close> and the one-byte blob \<open>[9]\<close>, CHECKSIG pushes false, and so it does for a
  valid signature with a key blob that does not decode; CHECKMULTISIG with the same key and
  the same blob raises \<open>NULLFAIL\<close>.
\<close>

theorem checksig_nullfail_undecodable_blob:
  "do_OP_CHECKSIG stub_ext \<lparr>stack = [[5], [9]], vm_flags = VERIFY_NULLFAIL, op_count = 0\<rparr> =
     (Inr (), \<lparr>stack = [VM_FALSE], vm_flags = VERIFY_NULLFAIL, op_count = 0\<rparr>)
   \<and> do_OP_CHECKSIG stub_ext
       \<lparr>stack = [[], [7, 1, 1]], vm_flags = VERIFY_NULLFAIL, op_count = 0\<rparr> =
     (Inr (), \<lparr>stack = [VM_FALSE], vm_flags = VERIFY_NULLFAIL, op_count = 0\<rparr>)
   \<and> do_OP_CHECKMULTISIG stub_ext
       \<lparr>stack = [[1], [5], [1], [9], []], vm_flags = VERIFY_NULLFAIL, op_count = 0\<rparr> =
     (Inl (ScriptError ''bad signature not NULL'' (Some NULLFAIL)),
      \<lparr>stack = [], vm_flags = VERIFY_NULLFAIL, op_count = 1\<rparr>)"
  by code_simp

text \<open>
  The cases of C7 that the code meets: CHECKSIG with a blob that parses and fails the
  verification, CHECKSIG with the empty blob, and CHECKMULTISIG.
\<close>

lemma nullfail_escalation:
  "(stack v = pair_blob # sig_blob # rest \<and> vm_flags v AND VERIFY_NULLFAIL \<noteq> 0
      \<and> key_checks_pass (vm_flags v) pair_blob \<and> sig_blob \<noteq> []
      \<and> parse_signature_blob x sig_blob (vm_flags v) = Inr (sig_pair, signature_type)
      \<and> sec_to_public_pair x pair_blob (vm_flags v AND VERIFY_STRICTENC \<noteq> 0) = Inr public_pair
      \<and> \<not> ecdsa_verify x public_pair
            (signature_for_hash_type_f x signature_type [sig_blob] (v\<lparr>stack := rest\<rparr>)) sig_pair
     \<longrightarrow> do_OP_CHECKSIG x v =
           (Inl (ScriptError ''bad signature not NULL'' (Some NULLFAIL)), v\<lparr>stack := rest\<rparr>))
   \<and> (stack v = pair_blob # [] # rest \<and> key_checks_pass (vm_flags v) pair_blob
     \<longrightarrow> do_OP_CHECKSIG x v = (Inr (), v\<lparr>stack := VM_FALSE # rest\<rparr>))
   \<and> (multisig_stack x v kc keys sc sigs hack rest \<and> vm_flags v AND VERIFY_NULLFAIL \<noteq> 0
      \<and> sig_blob_matches x (multisig_popped v keys rest) sigs keys (vm_flags v) = Inr idxs
      \<and> \<not> (- 1 \<notin> set idxs \<and> length idxs = length sigs \<and> sorted_wrt (<) idxs)
      \<and> (\<exists>b\<in>set sigs. b \<noteq> [])
     \<longrightarrow> do_OP_CHECKMULTISIG x v =
           (Inl (ScriptError ''bad signature not NULL'' (Some NULLFAIL)),
            multisig_popped v keys rest))
   \<and> (multisig_stack x v kc keys sc sigs hack rest \<and> sigs \<noteq> [] \<and> (\<forall>b\<in>set sigs. b = [])
     \<longrightarrow> do_OP_CHECKMULTISIG x v =
           (Inr (), vm_append (multisig_popped v keys rest) VM_FALSE))"
proof (intro conjI impI)
  assume a: "stack v = pair_blob # sig_blob # rest \<and> vm_flags v AND VERIFY_NULLFAIL \<noteq> 0
      \<and> key_checks_pass (vm_flags v) pair_blob \<and> sig_blob \<noteq> []
      \<and> parse_signature_blob x sig_blob (vm_flags v) = Inr (sig_pair, signature_type)
      \<and> sec_to_public_pair x pair_blob (vm_flags v AND VERIFY_STRICTENC \<noteq> 0) = Inr public_pair
      \<and> \<not> ecdsa_verify x public_pair
            (signature_for_hash_type_f x signature_type [sig_blob] (v\<lparr>stack := rest\<rparr>)) sig_pair"
  then show "do_OP_CHECKSIG x v =
           (Inl (ScriptError ''bad signature not NULL'' (Some NULLFAIL)), v\<lparr>stack := rest\<rparr>)"
    by (auto simp: do_OP_CHECKSIG_def Let_def pop_def bindE_def key_checks_pass_def)
next
  assume a: "stack v = pair_blob # [] # rest \<and> key_checks_pass (vm_flags v) pair_blob"
  have "parse_signature_blob x [] (vm_flags v) = Inl (ValueError ''empty sig_blob'')"
    by (simp add: parse_signature_blob_def)
  with a show "do_OP_CHECKSIG x v = (Inr (), v\<lparr>stack := VM_FALSE # rest\<rparr>)"
    by (auto simp: do_OP_CHECKSIG_def Let_def pop_def bindE_def key_checks_pass_def
        checksig_except_def caught_def vm_append_def)
next
  assume a: "multisig_stack x v kc keys sc sigs hack rest \<and> vm_flags v AND VERIFY_NULLFAIL \<noteq> 0
      \<and> sig_blob_matches x (multisig_popped v keys rest) sigs keys (vm_flags v) = Inr idxs
      \<and> \<not> (- 1 \<notin> set idxs \<and> length idxs = length sigs \<and> sorted_wrt (<) idxs)
      \<and> (\<exists>b\<in>set sigs. b \<noteq> [])"
  then have s: "multisig_stack x v kc keys sc sigs hack rest" by simp
  from a show "do_OP_CHECKMULTISIG x v =
           (Inl (ScriptError ''bad signature not NULL'' (Some NULLFAIL)),
            multisig_popped v keys rest)"
    by (auto simp: do_OP_CHECKMULTISIG_on_stack [OF s] checkmultisig_accept_result)
next
  assume a: "multisig_stack x v kc keys sc sigs hack rest \<and> sigs \<noteq> [] \<and> (\<forall>b\<in>set sigs. b = [])"
  then have s: "multisig_stack x v kc keys sc sigs hack rest" by simp
  from a obtain sigs' where c: "sigs = [] # sigs'" by (cases sigs) auto
  from s have "length sigs \<le> length keys" by (simp add: multisig_stack_def)
  with c have m: "sig_blob_matches x (multisig_popped v keys rest) sigs keys (vm_flags v) = Inr [- 1]"
    using sig_blob_matches_empty_first [of sigs' keys x "multisig_popped v keys rest" "vm_flags v"]
    by simp
  from a show "do_OP_CHECKMULTISIG x v = (Inr (), vm_append (multisig_popped v keys rest) VM_FALSE)"
    by (simp add: do_OP_CHECKMULTISIG_on_stack [OF s] m checkmultisig_accept_result)
qed

subsection \<open>C8: the acceptance test of CHECKMULTISIG\<close>

text \<open>
  C8. On a stack that reaches the matcher, \<open>do_OP_CHECKMULTISIG\<close> ends with the acceptance
  step \<open>checkmultisig_accept\<close> applied to the index list the matcher returned. For every
  index list, those the matcher cannot return included, that step pushes true exactly when
  the list holds no \<open>- 1\<close>, has as many entries as there are signature blobs and is strictly
  increasing. In every other case it pushes false, unless NULLFAIL is set and a signature
  blob is non-empty, when it raises \<open>NULLFAIL\<close>.
\<close>

theorem checkmultisig_acceptance:
  "(multisig_stack x v kc keys sc sigs hack rest
      \<and> sig_blob_matches x (multisig_popped v keys rest) sigs keys (vm_flags v) = Inr idxs
     \<longrightarrow> do_OP_CHECKMULTISIG x v =
           checkmultisig_accept (vm_flags v) sigs (multisig_popped v keys rest) idxs)
   \<and> checkmultisig_accept flags sig_blobs v' sig_blob_indices =
       (if - 1 \<notin> set sig_blob_indices \<and> length sig_blob_indices = length sig_blobs
           \<and> sorted_wrt (<) sig_blob_indices
        then (Inr (), vm_append v' VM_TRUE)
        else if flags AND VERIFY_NULLFAIL \<noteq> 0 \<and> (\<exists>b\<in>set sig_blobs. b \<noteq> [])
        then (Inl (ScriptError ''bad signature not NULL'' (Some NULLFAIL)), v')
        else (Inr (), vm_append v' VM_FALSE))"
proof (intro conjI impI)
  assume a: "multisig_stack x v kc keys sc sigs hack rest
      \<and> sig_blob_matches x (multisig_popped v keys rest) sigs keys (vm_flags v) = Inr idxs"
  then have s: "multisig_stack x v kc keys sc sigs hack rest" by simp
  from a show "do_OP_CHECKMULTISIG x v =
           checkmultisig_accept (vm_flags v) sigs (multisig_popped v keys rest) idxs"
    by (simp add: do_OP_CHECKMULTISIG_on_stack [OF s])
next
  show "checkmultisig_accept flags sig_blobs v' sig_blob_indices =
       (if - 1 \<notin> set sig_blob_indices \<and> length sig_blob_indices = length sig_blobs
           \<and> sorted_wrt (<) sig_blob_indices
        then (Inr (), vm_append v' VM_TRUE)
        else if flags AND VERIFY_NULLFAIL \<noteq> 0 \<and> (\<exists>b\<in>set sig_blobs. b \<noteq> [])
        then (Inl (ScriptError ''bad signature not NULL'' (Some NULLFAIL)), v')
        else (Inr (), vm_append v' VM_FALSE))"
    by (rule checkmultisig_accept_result)
qed

text \<open>
  Two signatures for three keys: accepted in the order of the keys, rejected when the second
  matches no key; and the acceptance step on lists that fail one test each: out of order,
  a tie, too short, and out of order under NULLFAIL.
\<close>

theorem checkmultisig_acceptance_witness:
  "do_OP_CHECKMULTISIG stub_ext
     \<lparr>stack = [[3], [0], [1], [2], [2], [0, 1, 1], [2, 1, 1], []],
      vm_flags = 0, op_count = 0\<rparr> =
     (Inr (), \<lparr>stack = [VM_TRUE], vm_flags = 0, op_count = 3\<rparr>)
   \<and> do_OP_CHECKMULTISIG stub_ext
     \<lparr>stack = [[3], [0], [1], [2], [2], [0, 1, 1], [9, 1, 1], []],
      vm_flags = 0, op_count = 0\<rparr> =
     (Inr (), \<lparr>stack = [VM_FALSE], vm_flags = 0, op_count = 3\<rparr>)
   \<and> checkmultisig_accept 0 [[0, 1, 1], [2, 1, 1]] \<lparr>stack = [], vm_flags = 0, op_count = 3\<rparr>
       [0, 3] = (Inr (), \<lparr>stack = [VM_TRUE], vm_flags = 0, op_count = 3\<rparr>)
   \<and> checkmultisig_accept 0 [[0, 1, 1], [2, 1, 1]] \<lparr>stack = [], vm_flags = 0, op_count = 3\<rparr>
       [3, 0] = (Inr (), \<lparr>stack = [VM_FALSE], vm_flags = 0, op_count = 3\<rparr>)
   \<and> checkmultisig_accept 0 [[0, 1, 1], [2, 1, 1]] \<lparr>stack = [], vm_flags = 0, op_count = 3\<rparr>
       [1, 1] = (Inr (), \<lparr>stack = [VM_FALSE], vm_flags = 0, op_count = 3\<rparr>)
   \<and> checkmultisig_accept 0 [[0, 1, 1], [2, 1, 1]] \<lparr>stack = [], vm_flags = 0, op_count = 3\<rparr>
       [0] = (Inr (), \<lparr>stack = [VM_FALSE], vm_flags = 0, op_count = 3\<rparr>)
   \<and> checkmultisig_accept VERIFY_NULLFAIL [[0, 1, 1], [2, 1, 1]]
       \<lparr>stack = [], vm_flags = VERIFY_NULLFAIL, op_count = 3\<rparr> [3, 0] =
       (Inl (ScriptError ''bad signature not NULL'' (Some NULLFAIL)),
        \<lparr>stack = [], vm_flags = VERIFY_NULLFAIL, op_count = 3\<rparr>)"
proof -
  let ?keys = "[[0], [1], [2]] :: bytes list"
  let ?good = "[[0, 1, 1], [2, 1, 1]] :: bytes list"
  let ?bad = "[[0, 1, 1], [9, 1, 1]] :: bytes list"
  let ?v1 = "\<lparr>stack = [3] # ?keys @ [2] # ?good @ [[]], vm_flags = 0, op_count = 0\<rparr>"
  let ?v2 = "\<lparr>stack = [3] # ?keys @ [2] # ?bad @ [[]], vm_flags = 0, op_count = 0\<rparr>"
  let ?w = "\<lparr>stack = [], vm_flags = 0, op_count = 3\<rparr>"
  let ?wn = "\<lparr>stack = [], vm_flags = VERIFY_NULLFAIL, op_count = 3\<rparr>"
  have h1: "multisig_stack stub_ext ?v1 [3] ?keys [2] ?good [] []
      \<and> sig_blob_matches stub_ext (multisig_popped ?v1 ?keys []) ?good ?keys (vm_flags ?v1)
          = Inr [0, 3]"
    by code_simp
  have h2: "multisig_stack stub_ext ?v2 [3] ?keys [2] ?bad [] []
      \<and> sig_blob_matches stub_ext (multisig_popped ?v2 ?keys []) ?bad ?keys (vm_flags ?v2)
          = Inr [0, - 1]"
    by code_simp
  have a1: "checkmultisig_accept 0 ?good ?w [0, 3] = (Inr (), vm_append ?w VM_TRUE)"
    using checkmultisig_acceptance
      [where flags = 0 and sig_blobs = ?good and v' = ?w and sig_blob_indices = "[0, 3]",
         THEN conjunct2]
    by simp
  have a2: "checkmultisig_accept 0 ?bad ?w [0, - 1] = (Inr (), vm_append ?w VM_FALSE)"
    using checkmultisig_acceptance
      [where flags = 0 and sig_blobs = ?bad and v' = ?w and sig_blob_indices = "[0, - 1]",
         THEN conjunct2]
    by simp
  have a3: "checkmultisig_accept 0 ?good ?w [3, 0] = (Inr (), vm_append ?w VM_FALSE)"
    using checkmultisig_acceptance
      [where flags = 0 and sig_blobs = ?good and v' = ?w and sig_blob_indices = "[3, 0]",
         THEN conjunct2]
    by simp
  have a4: "checkmultisig_accept 0 ?good ?w [1, 1] = (Inr (), vm_append ?w VM_FALSE)"
    using checkmultisig_acceptance
      [where flags = 0 and sig_blobs = ?good and v' = ?w and sig_blob_indices = "[1, 1]",
         THEN conjunct2]
    by simp
  have a5: "checkmultisig_accept 0 ?good ?w [0] = (Inr (), vm_append ?w VM_FALSE)"
    using checkmultisig_acceptance
      [where flags = 0 and sig_blobs = ?good and v' = ?w and sig_blob_indices = "[0]",
         THEN conjunct2]
    by simp
  have a6: "checkmultisig_accept VERIFY_NULLFAIL ?good ?wn [3, 0] =
      (Inl (ScriptError ''bad signature not NULL'' (Some NULLFAIL)), ?wn)"
    using checkmultisig_acceptance
      [where flags = VERIFY_NULLFAIL and sig_blobs = ?good and v' = ?wn
         and sig_blob_indices = "[3, 0]",
         THEN conjunct2]
    by (simp add: VERIFY_NULLFAIL_def)
  have c1: "do_OP_CHECKMULTISIG stub_ext ?v1 = checkmultisig_accept 0 ?good ?w [0, 3]"
    using h1 checkmultisig_acceptance
      [where x = stub_ext and v = ?v1 and kc = "[3]" and keys = ?keys and sc = "[2]"
         and sigs = ?good and hack = "[]" and rest = "[]" and idxs = "[0, 3]", THEN conjunct1]
    by (simp add: multisig_popped_def)
  have c2: "do_OP_CHECKMULTISIG stub_ext ?v2 = checkmultisig_accept 0 ?bad ?w [0, - 1]"
    using h2 checkmultisig_acceptance
      [where x = stub_ext and v = ?v2 and kc = "[3]" and keys = ?keys and sc = "[2]"
         and sigs = ?bad and hack = "[]" and rest = "[]" and idxs = "[0, - 1]", THEN conjunct1]
    by (simp add: multisig_popped_def)
  from c1 c2 a1 a2 a3 a4 a5 a6 show ?thesis by (simp add: vm_append_def)
qed

subsection \<open>C9: the indices of the matcher increase\<close>

text \<open>
  C9. Whenever \<open>find_public_pair\<close> returns, it returns \<open>- 1\<close> or an integer greater than the
  \<open>ppb_idx\<close> it was given. So every index list that \<open>sig_blob_matches\<close> returns and that holds
  no \<open>- 1\<close> is strictly increasing, and the re-check of \<open>do_OP_CHECKMULTISIG\<close>
  (\<open>indices_increasing\<close>) never rejects it.
\<close>

theorem find_public_pair_advances:
  "(find_public_pair x blobs ppp signature_count strict w ppb_idx = Inr r
      \<longrightarrow> r = - 1 \<or> ppb_idx < r)
   \<and> (sig_blob_matches x v sig_blobs public_pair_blobs flags = Inr idxs \<and> - 1 \<notin> set idxs
      \<longrightarrow> sorted_wrt (<) idxs \<and> indices_increasing idxs)"
proof (intro conjI impI)
  assume "find_public_pair x blobs ppp signature_count strict w ppb_idx = Inr r"
  then show "r = - 1 \<or> ppb_idx < r" by (rule find_public_pair_result)
next
  assume a: "sig_blob_matches x v sig_blobs public_pair_blobs flags = Inr idxs \<and> - 1 \<notin> set idxs"
  then have "sorted_wrt (<) idxs"
    unfolding sig_blob_matches_def
    using sig_blob_matches_loop_sorted [of x v sig_blobs public_pair_blobs flags Map.empty "[]" "- 1" sig_blobs idxs]
    by simp
  then show "sorted_wrt (<) idxs" "indices_increasing idxs"
    by (simp_all add: indices_increasing_sorted)
qed

theorem find_public_pair_advances_witness:
  "find_public_pair stub_ext [[0], [1]] {(1, 0)} 0 False 0 (- 1) = Inr 1
   \<and> sig_blob_matches stub_ext \<lparr>stack = [], vm_flags = 0, op_count = 0\<rparr>
        [[0, 1, 1], [1, 1, 1]] [[0], [1]] 0 = Inr [0, 2]
   \<and> sorted_wrt (<) [0, 2 :: int] \<and> indices_increasing [0, 2]"
proof -
  have f: "find_public_pair stub_ext [[0], [1]] {(1, 0)} 0 False 0 (- 1) = Inr 1"
    by (simp add: find_public_pair.simps bindE_def stub_ext_def)
  have m: "sig_blob_matches stub_ext \<lparr>stack = [], vm_flags = 0, op_count = 0\<rparr>
        [[0, 1, 1], [1, 1, 1]] [[0], [1]] 0 = Inr [0, 2]"
    by (simp add: sig_blob_matches_def parse_signature_blob_def bindE_def
        stub_ext_def find_public_pair.simps)
  show ?thesis
    using f m find_public_pair_advances
      [of stub_ext "[[0], [1]]" "{(1, 0)}" 0 False 0 "- 1" 1
          "\<lparr>stack = [], vm_flags = 0, op_count = 0\<rparr>" "[[0, 1, 1], [1, 1, 1]]" "[[0], [1]]" 0
          "[0, 2]"]
    by simp
qed

subsection \<open>C10: the operation counter\<close>

text \<open>
  C10. \<open>do_OP_CHECKMULTISIG\<close> adds the popped key count to \<open>op_count\<close> before it tests that
  the count is in the range 0 to 20. When the count is out of range the operation raises
  \<open>PUBKEY_COUNT\<close>, and the state it leaves has the counter already changed (and the count
  popped).
\<close>

theorem checkmultisig_op_count_before_range_check:
  assumes "stack v = b # rest" and "int_from_script_bytes x b = Inr key_count"
    and "key_count < 0 \<or> key_count > 20"
  shows "do_OP_CHECKMULTISIG x v =
           (Inl (ScriptError ''key_count not in range 0 to 20'' (Some PUBKEY_COUNT)),
            v\<lparr>stack := rest, op_count := op_count v + key_count\<rparr>)
         \<and> op_count (snd (do_OP_CHECKMULTISIG x v)) \<noteq> op_count v"
  using assms by (auto simp: do_OP_CHECKMULTISIG_def pop_int_def pop_def Let_def)

theorem checkmultisig_op_count_before_range_check_witness:
  "do_OP_CHECKMULTISIG stub_ext \<lparr>stack = [[21]], vm_flags = 0, op_count = 100\<rparr> =
     (Inl (ScriptError ''key_count not in range 0 to 20'' (Some PUBKEY_COUNT)),
      \<lparr>stack = [], vm_flags = 0, op_count = 121\<rparr>)"
  using checkmultisig_op_count_before_range_check
    [of "\<lparr>stack = [[21]], vm_flags = 0, op_count = 100\<rparr>" "[21]" "[]" stub_ext 21]
  by (simp add: stub_ext_def)

end
